theory Spec2Isabelle
  imports Complex_Main "HOL-Library.Char_ord" "HOL-Library.List_Lexorder" "HOL-Library.Multiset"
begin

section \<open>Data model of the smart reporter\<close>

text \<open>
  The reporter class \<open>SmartReporter\<close> lives in \<open>src/pages/QuickTransactionPage.ts\<close>
  (second document of that file). Its interfaces become records. Field names that occur in
  several interfaces carry a one-letter prefix, because record fields are global constants:
  \<open>e_\<close> for \<open>TestHistoryEntry\<close>, \<open>s_\<close> for \<open>RunSummary\<close>, \<open>m_\<close> for \<open>RunMetadata\<close>.

  Numbers: a JavaScript \<open>number\<close> that holds a count or a \<open>Date.now()\<close> difference is
  \<open>nat\<close> or \<open>int\<close>. A finite double is the rational it denotes, and \<open>jsnum\<close> adds the two
  infinities and NaN of IEEE arithmetic. The arithmetic of the performance trend and of the
  pass rate rounds every result to the nearest double (section "Double arithmetic"). The
  flakiness score is kept as the exact quotient \<open>f / n\<close> of two counts: the code's score is
  the double nearest to it and rounding is monotone, so its comparisons with the literals
  \<open>0.1\<close> and \<open>0.3\<close> agree with the exact comparisons with \<open>1/10\<close> and \<open>3/10\<close> for every
  history that fits in memory. The heights of the bars of the trend chart are kept exact as
  well; nothing below depends on their digits.
\<close>

datatype Status = Passed | Failed | Skipped | TimedOut | Interrupted

record TestHistoryEntry =
  e_passed :: bool
  e_duration :: rat
  e_timestamp :: string
  e_skipped :: "bool option"   \<comment> \<open>\<open>skipped?: boolean\<close>\<close>

record RunSummary =
  s_runId :: string
  s_timestamp :: string
  s_total :: nat
  s_passed :: nat
  s_failed :: nat
  s_skipped :: nat
  s_flaky :: nat
  s_slow :: nat
  s_duration :: int
  s_passRate :: int

record RunMetadata =
  m_runId :: string
  m_timestamp :: string

record TestHistory =
  runs :: "RunMetadata list"
  tests :: "string \<rightharpoonup> TestHistoryEntry list"
  summaries :: "RunSummary list option"   \<comment> \<open>\<open>summaries?: RunSummary[]\<close>\<close>

text \<open>
  The labels are string literals with a symbol in front (\<open>'... Stable'\<close>, \<open>'... Unstable'\<close>,
  \<open>'... Flaky'\<close>, \<open>'... New'\<close>, \<open>'... Skipped'\<close> for the indicator; an up arrow with
  \<open>N% slower\<close>, a down arrow with \<open>N% faster\<close>, a right arrow with \<open>Stable\<close>, \<open>Baseline\<close> or
  \<open>Skipped\<close> for the trend). Each literal is one constructor; the number printed inside a
  trend label is the constructor's argument. \<open>performanceTrend?.startsWith(up arrow)\<close> is
  then the test for the constructor \<open>Slower\<close>.
\<close>

datatype FlakinessIndicator = Stable | Unstable | Flaky | New | SkippedIndicator

datatype jsnum = Fin rat | PosInf | NegInf | NaN

datatype PerformanceTrend = Slower jsnum | Faster jsnum | StableTrend | Baseline | SkippedTrend

text \<open>
  \<open>TestResultData\<close> without the fields that only feed the page (\<open>error\<close>, \<open>aiSuggestion\<close>,
  \<open>steps\<close>, \<open>screenshot\<close>, \<open>videoPath\<close>). Its \<open>history\<close> field is named after the local
  variable it is filled from, \<open>historyEntries\<close>.
\<close>

record TestResultData =
  testId :: string
  title :: string
  "file" :: string
  status :: Status
  duration :: rat
  retry :: nat
  flakinessScore :: "rat option"
  flakinessIndicator :: "FlakinessIndicator option"
  performanceTrend :: "PerformanceTrend option"
  averageDuration :: "rat option"
  historyEntries :: "TestHistoryEntry list"

record Options =
  outputFile :: string
  historyFile :: string
  maxHistoryRuns :: int
  performanceThreshold :: rat
  slackWebhook :: "string option"
  teamsWebhook :: "string option"

record SmartReporter =
  options :: Options
  results :: "TestResultData list"
  history :: TestHistory
  currentRun :: RunMetadata
  startTime :: int
  outputDir :: string

text \<open>What \<open>onTestEnd\<close> reads from Playwright's \<open>TestCase\<close> and \<open>TestResult\<close>; \<open>te_file\<close> is
  \<open>path.relative(outputDir, test.location.file)\<close>.\<close>

record TestEnd =
  te_file :: string
  te_title :: string
  te_status :: Status
  te_duration :: rat
  te_retry :: nat

section \<open>Double arithmetic\<close>

text \<open>
  The result of an arithmetic operation on doubles is the exact result rounded to the nearest
  binary64 value, a tie going to the even significand. \<open>bitLength n\<close> is the number of binary
  digits of a positive integer, \<open>pow2 k\<close> is the power of two with the integer exponent \<open>k\<close>, and
  \<open>ilog2 a\<close> is the exponent \<open>e\<close> with \<open>pow2 e \<le> a < pow2 (e + 1)\<close> of a positive rational.
\<close>

function bitLength :: "int \<Rightarrow> int" where
  "bitLength n = (if n \<le> 0 then 0 else 1 + bitLength (n div 2))"
  by pat_completeness auto
termination
  by (relation "measure nat") auto

declare bitLength.simps [simp del]

definition pow2 :: "int \<Rightarrow> rat" where
  "pow2 k = (if 0 \<le> k then 2 ^ nat k else 1 / 2 ^ nat (- k))"

definition ilog2 :: "rat \<Rightarrow> int" where
  "ilog2 a =
     (case quotient_of a of (n, d) \<Rightarrow>
        (let k = bitLength n - bitLength d
         in if pow2 k \<le> a then k else k - 1))"

definition roundHalfEven :: "rat \<Rightarrow> int" where
  "roundHalfEven x =
     (let f = \<lfloor>x\<rfloor>; r = x - of_int f
      in if r < 1 / 2 then f else if 1 / 2 < r then f + 1 else if even f then f else f + 1)"

text \<open>
  \<open>round53 q\<close> is the binary64 value nearest to \<open>q\<close> when the exponent has no upper bound:
  53 significant bits, the unit in the last place never below \<open>pow2 (- 1074)\<close> (subnormal
  numbers). \<open>double q\<close> is the result in the format itself: a rounded magnitude of
  \<open>pow2 1024\<close> or more, one whose exponent is 1024 or more, is an infinity. The two zeros
  of the format are one value here; they differ only as divisors, and the divisor of the
  code, a mean of durations that are not negative, is never the negative zero.
\<close>

definition round53 :: "rat \<Rightarrow> rat" where
  "round53 q =
     (if q = 0 then 0
      else (let a = \<bar>q\<bar>;
                e = max (ilog2 a) (- 1022);
                ulp = pow2 (e - 52)
            in sgn q * (of_int (roundHalfEven (a / ulp)) * ulp)))"

definition double :: "rat \<Rightarrow> jsnum" where
  "double q =
     (let r = round53 q
      in if r \<noteq> 0 \<and> 1024 \<le> ilog2 \<bar>r\<bar> then (if 0 < q then PosInf else NegInf)
         else Fin r)"

section \<open>Flakiness and performance\<close>

definition getTestId :: "string \<Rightarrow> string \<Rightarrow> string" where
  "getTestId f t = f @ ''::'' @ t"

definition getFlakinessIndicator :: "rat \<Rightarrow> FlakinessIndicator" where
  "getFlakinessIndicator score =
     (if score < 1 / 10 then Stable
      else if score < 3 / 10 then Unstable
      else Flaky)"

text \<open>IEEE division by a finite number, the divisor possibly zero.\<close>

fun js_div :: "jsnum \<Rightarrow> rat \<Rightarrow> jsnum" where
  "js_div (Fin a) b =
     (if b \<noteq> 0 then double (a / b)
      else if 0 < a then PosInf
      else if a < 0 then NegInf
      else NaN)"
| "js_div PosInf b = (if 0 \<le> b then PosInf else NegInf)"
| "js_div NegInf b = (if 0 \<le> b then NegInf else PosInf)"
| "js_div NaN b = NaN"

text \<open>IEEE multiplication by a finite number.\<close>

fun js_times :: "jsnum \<Rightarrow> rat \<Rightarrow> jsnum" where
  "js_times (Fin x) c = double (x * c)"
| "js_times PosInf c = (if 0 < c then PosInf else if c < 0 then NegInf else NaN)"
| "js_times NegInf c = (if 0 < c then NegInf else if c < 0 then PosInf else NaN)"
| "js_times NaN c = NaN"

fun js_gt :: "jsnum \<Rightarrow> rat \<Rightarrow> bool" where
  "js_gt (Fin x) t = (t < x)"
| "js_gt PosInf t = True"
| "js_gt NegInf t = False"
| "js_gt NaN t = False"

fun js_lt :: "jsnum \<Rightarrow> rat \<Rightarrow> bool" where
  "js_lt (Fin x) t = (x < t)"
| "js_lt PosInf t = False"
| "js_lt NegInf t = True"
| "js_lt NaN t = False"

fun js_abs :: "jsnum \<Rightarrow> jsnum" where
  "js_abs (Fin x) = Fin \<bar>x\<bar>"
| "js_abs PosInf = PosInf"
| "js_abs NegInf = PosInf"
| "js_abs NaN = NaN"

text \<open>\<open>Math.round\<close>: the nearest integer, a tie going towards plus infinity. The result is
  exact, since a double of magnitude \<open>pow2 52\<close> or more is an integer already.\<close>

fun js_round :: "jsnum \<Rightarrow> jsnum" where
  "js_round (Fin x) = Fin (of_int \<lfloor>x + 1 / 2\<rfloor>)"
| "js_round PosInf = PosInf"
| "js_round NegInf = NegInf"
| "js_round NaN = NaN"

text \<open>\<open>current\<close> and \<open>average\<close> are finite doubles; the difference, the quotient and the
  product with 100 are each rounded.\<close>

definition getPerformanceTrend :: "Options \<Rightarrow> rat \<Rightarrow> rat \<Rightarrow> PerformanceTrend" where
  "getPerformanceTrend opts current average =
     (let diff = js_div (double (current - average)) average in
      if js_gt diff (performanceThreshold opts) then Slower (js_round (js_times diff 100))
      else if js_lt diff (- performanceThreshold opts) then
        Faster (js_round (js_times (js_abs diff) 100))
      else StableTrend)"

text \<open>\<open>!e.skipped\<close>: an absent \<open>skipped\<close> field counts as not skipped. In \<open>onTestEnd\<close> the sum
  of the durations is rounded after every addition and the mean after the division; both
  stay finite unless durations reach the order of \<open>10^307\<close> milliseconds, which is left out.\<close>

definition notSkipped :: "TestHistoryEntry \<Rightarrow> bool" where
  "notSkipped e = (e_skipped e \<noteq> Some True)"

definition onTestEnd :: "SmartReporter \<Rightarrow> TestEnd \<Rightarrow> SmartReporter" where
  "onTestEnd rep ev =
     (let tid = getTestId (te_file ev) (te_title ev);
          hist = (case tests (history rep) tid of None \<Rightarrow> [] | Some es \<Rightarrow> es);
          testData = \<lparr> testId = tid, title = te_title ev, file = te_file ev,
                       status = te_status ev, duration = te_duration ev, retry = te_retry ev,
                       flakinessScore = None, flakinessIndicator = None,
                       performanceTrend = None, averageDuration = None,
                       historyEntries = hist \<rparr>;
          testData' =
            (if te_status ev = Skipped then
               testData\<lparr> flakinessIndicator := Some SkippedIndicator,
                          performanceTrend := Some SkippedTrend \<rparr>
             else if length hist > 0 then
               (let relevantHistory = filter notSkipped hist in
                if length relevantHistory > 0 then
                  (let failures = length (filter (\<lambda>e. \<not> e_passed e) relevantHistory);
                       score = of_nat failures / of_nat (length relevantHistory);
                       avgDuration =
                         round53 (foldl (\<lambda>sum e. round53 (sum + e_duration e)) 0 relevantHistory
                                    / of_nat (length relevantHistory))
                   in testData\<lparr> flakinessScore := Some score,
                                 flakinessIndicator := Some (getFlakinessIndicator score),
                                 averageDuration := Some avgDuration,
                                 performanceTrend :=
                                   Some (getPerformanceTrend (options rep) (te_duration ev) avgDuration) \<rparr>)
                else
                  testData\<lparr> flakinessIndicator := Some New, performanceTrend := Some Baseline \<rparr>)
             else
               testData\<lparr> flakinessIndicator := Some New, performanceTrend := Some Baseline \<rparr>)
      in rep\<lparr> results := results rep @ [testData'] \<rparr>)"

text \<open>The constructor: every option falls back to its default (\<open>??\<close>), and the field
  initialisers give an empty result list and the empty history document. The default
  threshold is the double that the literal \<open>0.2\<close> denotes.\<close>

definition emptyHistory :: TestHistory where
  "emptyHistory = \<lparr> runs = [], tests = Map.empty, summaries = Some [] \<rparr>"

definition constructor :: "string option \<Rightarrow> string option \<Rightarrow> int option \<Rightarrow> rat option
    \<Rightarrow> string option \<Rightarrow> string option \<Rightarrow> SmartReporter" where
  "constructor oFile hFile maxRuns perfThr slack teams =
     \<lparr> options = \<lparr> outputFile = (case oFile of None \<Rightarrow> ''smart-report.html'' | Some f \<Rightarrow> f),
                    historyFile = (case hFile of None \<Rightarrow> ''test-history.json'' | Some f \<Rightarrow> f),
                    maxHistoryRuns = (case maxRuns of None \<Rightarrow> 10 | Some n \<Rightarrow> n),
                    performanceThreshold =
                      (case perfThr of None \<Rightarrow> round53 (2 / 10) | Some t \<Rightarrow> t),
                    slackWebhook = slack, teamsWebhook = teams \<rparr>,
       results = [],
       history = emptyHistory,
       currentRun = \<lparr> m_runId = '''', m_timestamp = '''' \<rparr>,
       startTime = 0,
       outputDir = '''' \<rparr>"

section \<open>Recording the current run\<close>

text \<open>\<open>Array.prototype.slice(start)\<close> for an integer \<open>start\<close>: a negative start counts from
  the end, and \<open>-0\<close> is \<open>0\<close>.\<close>

definition js_slice :: "int \<Rightarrow> 'a list \<Rightarrow> 'a list" where
  "js_slice start xs =
     (let len = int (length xs);
          k = (if start < 0 then max (len + start) 0 else min start len)
      in drop (nat k) xs)"

text \<open>The last \<open>n\<close> elements of a list: what \<open>slice(-n)\<close> keeps for a positive \<open>n\<close>.\<close>

definition lastN :: "nat \<Rightarrow> 'a list \<Rightarrow> 'a list" where
  "lastN n xs = drop (length xs - n) xs"

definition newEntry :: "string \<Rightarrow> TestResultData \<Rightarrow> TestHistoryEntry" where
  "newEntry timestamp r =
     \<lparr> e_passed = (status r = Passed), e_duration = duration r,
       e_timestamp = timestamp, e_skipped = Some (status r = Skipped) \<rparr>"

text \<open>The body of the loop over \<open>this.results\<close> in \<open>updateHistory\<close>.\<close>

definition recordResult :: "int \<Rightarrow> string \<Rightarrow> (string \<rightharpoonup> TestHistoryEntry list)
    \<Rightarrow> TestResultData \<Rightarrow> (string \<rightharpoonup> TestHistoryEntry list)" where
  "recordResult maxRuns timestamp ts r =
     (let cur = (case ts (testId r) of None \<Rightarrow> [] | Some es \<Rightarrow> es);
          pushed = cur @ [newEntry timestamp r]
      in ts(testId r \<mapsto>
           (if int (length pushed) > maxRuns then js_slice (- maxRuns) pushed else pushed)))"

definition countStatus :: "(Status \<Rightarrow> bool) \<Rightarrow> TestResultData list \<Rightarrow> nat" where
  "countStatus p rs = length (filter (\<lambda>r. p (status r)) rs)"

text \<open>\<open>r.flakinessScore && r.flakinessScore >= 0.3\<close>: an absent score and the score 0 are
  falsy.\<close>

definition isFlaky :: "TestResultData \<Rightarrow> bool" where
  "isFlaky r = (case flakinessScore r of None \<Rightarrow> False | Some sc \<Rightarrow> sc \<noteq> 0 \<and> 3 / 10 \<le> sc)"

definition isSlow :: "TestResultData \<Rightarrow> bool" where
  "isSlow r = (case performanceTrend r of Some (Slower p) \<Rightarrow> True | _ \<Rightarrow> False)"

text \<open>\<open>(passed + failed) > 0 ? Math.round((passed / (passed + failed)) * 100) : 0\<close>: the
  counts and their sum are exact, the quotient and the product are rounded to doubles, and
  \<open>Math.round\<close> takes the nearest integer, a tie going up.\<close>

definition passRateOf :: "nat \<Rightarrow> nat \<Rightarrow> int" where
  "passRateOf p f =
     (if p + f > 0 then \<lfloor>round53 (round53 (of_nat p / of_nat (p + f)) * 100) + 1 / 2\<rfloor>
      else 0)"

text \<open>The summary pushed by \<open>updateHistory\<close>; \<open>now\<close> is \<open>Date.now()\<close>.\<close>

definition runSummary :: "int \<Rightarrow> SmartReporter \<Rightarrow> RunSummary" where
  "runSummary now rep =
     (let passed = countStatus (\<lambda>s. s = Passed) (results rep);
          failed = countStatus (\<lambda>s. s = Failed \<or> s = TimedOut) (results rep);
          skipped = countStatus (\<lambda>s. s = Skipped) (results rep);
          flaky = length (filter isFlaky (results rep));
          slow = length (filter isSlow (results rep));
          total = length (results rep);
          duration = now - startTime rep
      in \<lparr> s_runId = m_runId (currentRun rep), s_timestamp = m_timestamp (currentRun rep),
           s_total = total, s_passed = passed, s_failed = failed, s_skipped = skipped,
           s_flaky = flaky, s_slow = slow, s_duration = duration,
           s_passRate = passRateOf passed failed \<rparr>)"

text \<open>
  \<open>updateHistory\<close>: \<open>timestamp\<close> is \<open>new Date().toISOString()\<close> and \<open>now\<close> is \<open>Date.now()\<close>.
  The document in the returned state is what \<open>fs.writeFileSync\<close> serialises to the history
  file.
\<close>

definition updateHistory :: "string \<Rightarrow> int \<Rightarrow> SmartReporter \<Rightarrow> SmartReporter" where
  "updateHistory timestamp now rep =
     (let maxRuns = maxHistoryRuns (options rep);
          ts = foldl (recordResult maxRuns timestamp) (tests (history rep)) (results rep);
          smrs = (case summaries (history rep) of None \<Rightarrow> [] | Some ss \<Rightarrow> ss);
          pushed = smrs @ [runSummary now rep];
          smrs' = (if int (length pushed) > maxRuns then js_slice (- maxRuns) pushed else pushed)
      in rep\<lparr> history := (history rep)\<lparr> tests := ts, summaries := Some smrs' \<rparr> \<rparr>)"

text \<open>
  One run against a stored document: a fresh reporter with the options \<open>opts\<close> holds the
  document, receives the test results of the run one by one, and records the run. A
  sequence of runs threads the document through.
\<close>

record Run =
  run_meta :: RunMetadata
  run_start :: int
  run_events :: "TestEnd list"
  run_endIso :: string
  run_endNow :: int

definition recordRun :: "Options \<Rightarrow> TestHistory \<Rightarrow> Run \<Rightarrow> TestHistory" where
  "recordRun opts h run =
     history (updateHistory (run_endIso run) (run_endNow run)
       (foldl onTestEnd
          \<lparr> options = opts, results = [], history = h, currentRun = run_meta run,
            startTime = run_start run, outputDir = [] \<rparr>
          (run_events run)))"

definition recordRuns :: "Options \<Rightarrow> TestHistory \<Rightarrow> Run list \<Rightarrow> TestHistory" where
  "recordRuns opts h rs = foldl (recordRun opts) h rs"

section \<open>The figures of the page\<close>

text \<open>The constants that \<open>generateHtml\<close> computes before it fills the template and
  interpolates into it (the cards and the filter buttons show \<open>passed\<close>, \<open>failed\<close>,
  \<open>skipped\<close>, \<open>flaky\<close>, \<open>slow\<close>, \<open>total\<close> and \<open>passRate\<close>).\<close>

record HtmlFigures =
  h_passed :: nat
  h_failed :: nat
  h_skipped :: nat
  h_flaky :: nat
  h_slow :: nat
  h_total :: nat
  h_passRate :: int

definition generateHtml :: "SmartReporter \<Rightarrow> HtmlFigures" where
  "generateHtml rep =
     (let passed = countStatus (\<lambda>s. s = Passed) (results rep);
          failed = countStatus (\<lambda>s. s = Failed) (results rep);
          skipped = countStatus (\<lambda>s. s = Skipped) (results rep);
          flaky = length (filter isFlaky (results rep));
          slow = length (filter isSlow (results rep));
          total = length (results rep)
      in \<lparr> h_passed = passed, h_failed = failed, h_skipped = skipped, h_flaky = flaky,
           h_slow = slow, h_total = total, h_passRate = passRateOf passed failed \<rparr>)"

text \<open>
  \<open>generateTrendChart\<close> returns the empty string or a block of markup with four rows of
  bars. The model keeps the rows: every bar is its height in pixels (for a stacked bar the
  heights of its two segments, the failed one present only when its share is positive), in
  the order of the template, the bars of the summaries first and the bar of the current run
  last. \<open>None\<close> is the empty string. The flag of \<open>stackedBar\<close> tells the bar of the
  current run, whose scale factor is the constant \<open>maxBarHeight / 100\<close>, from the bar of a
  summary.
\<close>

record StackedBar =
  failedHeight :: "rat option"
  passedHeight :: rat

record TrendChart =
  subtitleRuns :: nat
  trendChart :: "StackedBar list"
  durationChart :: "rat list"
  flakyChart :: "rat list"
  slowChart :: "rat list"

definition stackedBar :: "nat \<Rightarrow> nat \<Rightarrow> bool \<Rightarrow> StackedBar" where
  "stackedBar p f isCurrent =
     (let nonSkippedTotal = (if p + f = 0 then 1 else p + f);
          passedPct = (of_nat p / of_nat nonSkippedTotal) * 100;
          failedPct = (of_nat f / of_nat nonSkippedTotal) * 100;
          totalHeight = passedPct + failedPct;
          scaleFactor = (if isCurrent \<or> totalHeight > 0 then 80 / 100 else 1)
      in \<lparr> failedHeight = (if failedPct > 0 then Some (failedPct * scaleFactor) else None),
           passedHeight = passedPct * scaleFactor \<rparr>)"

definition durationBar :: "int \<Rightarrow> int \<Rightarrow> rat" where
  "durationBar maxDuration d =
     (if maxDuration > 0 then max 4 ((of_int d / of_int maxDuration) * 35) else 4)"

definition countBar :: "nat \<Rightarrow> nat \<Rightarrow> rat" where
  "countBar maxCount c =
     (if maxCount > 0 then max (if c > 0 then 4 else 0) ((of_nat c / of_nat maxCount) * 35)
      else 0)"

definition generateTrendChart :: "int \<Rightarrow> SmartReporter \<Rightarrow> TrendChart option" where
  "generateTrendChart now rep =
     (let smrs = (case summaries (history rep) of None \<Rightarrow> [] | Some ss \<Rightarrow> ss) in
      if length smrs < 2 then None
      else
        (let passed = countStatus (\<lambda>s. s = Passed) (results rep);
             failed = countStatus (\<lambda>s. s = Failed \<or> s = TimedOut) (results rep);
             currentFlaky = length (filter isFlaky (results rep));
             currentSlow = length (filter isSlow (results rep));
             currentDuration = now - startTime rep;
             maxDuration = foldr max (map s_duration smrs) currentDuration;
             maxFlaky = foldr max (map s_flaky smrs @ [currentFlaky]) 1;
             maxSlow = foldr max (map s_slow smrs @ [currentSlow]) 1
         in Some \<lparr> subtitleRuns = length smrs + 1,
                   trendChart = map (\<lambda>s. stackedBar (s_passed s) (s_failed s) False) smrs
                                  @ [stackedBar passed failed True],
                   durationChart = map (\<lambda>s. durationBar maxDuration (s_duration s)) smrs
                                     @ [durationBar maxDuration currentDuration],
                   flakyChart = map (\<lambda>s. countBar maxFlaky (s_flaky s)) smrs
                                  @ [countBar maxFlaky currentFlaky],
                   slowChart = map (\<lambda>s. countBar maxSlow (s_slow s)) smrs
                                 @ [countBar maxSlow currentSlow] \<rparr>))"

section \<open>Loading the history file\<close>

text \<open>
  \<open>loadHistory\<close> assigns whatever \<open>JSON.parse\<close> returns to \<open>this.history\<close> without a check,
  so at this point the document is a JSON value. \<open>JSON.parse\<close> itself is a parameter
  (\<open>None\<close> is its \<open>SyntaxError\<close>); an object is the list of its members.
\<close>

datatype json = JNull | JBool bool | JNum rat | JStr string | JArr "json list"
  | JObj "(string \<times> json) list"

datatype file_state = Missing | Unreadable | Content string

datatype js_error = SyntaxError | TypeError | IOError

fun truthy :: "json \<Rightarrow> bool" where
  "truthy JNull = False"
| "truthy (JBool b) = b"
| "truthy (JNum n) = (n \<noteq> 0)"
| "truthy (JStr s) = (s \<noteq> [])"
| "truthy (JArr xs) = True"
| "truthy (JObj kvs) = True"

text \<open>\<open>loaded.tests\<close>: reading a property of \<open>null\<close> throws, an object yields the member or
  \<open>undefined\<close> (\<open>None\<close>), and no other JSON value has a property of that name.\<close>

fun loaded_tests :: "json \<Rightarrow> js_error + json option" where
  "loaded_tests JNull = Inl TypeError"
| "loaded_tests (JObj kvs) = Inr (map_of kvs ''tests'')"
| "loaded_tests v = Inr None"

definition emptyDocument :: json where
  "emptyDocument = JObj [(''runs'', JArr []), (''tests'', JObj []), (''summaries'', JArr [])]"

text \<open>The body of the \<open>try\<close> block: the value assigned to \<open>this.history\<close>, or what was
  thrown.\<close>

definition loadHistory_try :: "(string \<Rightarrow> json option) \<Rightarrow> file_state \<Rightarrow> js_error + json" where
  "loadHistory_try parse fs =
     (case fs of
        Missing \<Rightarrow> Inl IOError
      | Unreadable \<Rightarrow> Inl IOError
      | Content text \<Rightarrow>
          (case parse text of
             None \<Rightarrow> Inl SyntaxError
           | Some loaded \<Rightarrow>
               (case loaded_tests loaded of
                  Inl e \<Rightarrow> Inl e
                | Inr t \<Rightarrow>
                    if (case t of None \<Rightarrow> False | Some v \<Rightarrow> truthy v) then Inr loaded
                    else Inr (JObj [(''runs'', JArr []), (''tests'', loaded),
                                    (''summaries'', JArr [])]))))"

text \<open>\<open>loadHistory\<close> maps the document held before the call (\<open>cur\<close>) to the document held
  after it. \<open>fs.existsSync\<close> is false exactly for \<open>Missing\<close>.\<close>

definition loadHistory :: "(string \<Rightarrow> json option) \<Rightarrow> file_state \<Rightarrow> json \<Rightarrow> json" where
  "loadHistory parse fs cur =
     (if fs \<noteq> Missing then
        (case loadHistory_try parse fs of Inr h \<Rightarrow> h | Inl e \<Rightarrow> emptyDocument)
      else cur)"

section \<open>The merge command line\<close>

text \<open>
  \<open>main\<close> of \<open>src/src/merge-history.ts\<close>. The parser fills three variables; \<open>None\<close> in
  \<open>cli_outputFile\<close> is \<open>null\<close> or \<open>undefined\<close>, and \<open>parseInt\<close> is a parameter whose \<open>None\<close>
  is NaN.
\<close>

record CliArgs =
  cli_historyFiles :: "string list"
  cli_outputFile :: "string option"
  cli_maxRuns :: "int option"

definition startsWithDash :: "string \<Rightarrow> bool" where
  "startsWithDash arg = (case arg of [] \<Rightarrow> False | c # cs \<Rightarrow> c = CHR ''-'')"

fun parseArgs :: "(string \<Rightarrow> int option) \<Rightarrow> string list \<Rightarrow> CliArgs \<Rightarrow> CliArgs" where
  "parseArgs pInt [] acc = acc"
| "parseArgs pInt [arg] acc =
     (if arg = ''-o'' \<or> arg = ''--output'' then acc\<lparr> cli_outputFile := None \<rparr>
      else if arg = ''-n'' \<or> arg = ''--max-runs'' then acc\<lparr> cli_maxRuns := None \<rparr>
      else if \<not> startsWithDash arg then acc\<lparr> cli_historyFiles := cli_historyFiles acc @ [arg] \<rparr>
      else acc)"
| "parseArgs pInt (arg # nxt # rest) acc =
     (if arg = ''-o'' \<or> arg = ''--output'' then
        parseArgs pInt rest (acc\<lparr> cli_outputFile := Some nxt \<rparr>)
      else if arg = ''-n'' \<or> arg = ''--max-runs'' then
        parseArgs pInt rest (acc\<lparr> cli_maxRuns := pInt nxt \<rparr>)
      else if \<not> startsWithDash arg then
        parseArgs pInt (nxt # rest) (acc\<lparr> cli_historyFiles := cli_historyFiles acc @ [arg] \<rparr>)
      else parseArgs pInt (nxt # rest) acc)"

definition initialArgs :: CliArgs where
  "initialArgs = \<lparr> cli_historyFiles = [], cli_outputFile = None, cli_maxRuns = Some 10 \<rparr>"

text \<open>What \<open>main\<close> does last: \<open>process.exit(n)\<close>, or the call of \<open>mergeHistories\<close>.\<close>

datatype CliOutcome = Exit nat | CallMerge "string list" string "int option"

definition main :: "(string \<Rightarrow> int option) \<Rightarrow> string list \<Rightarrow> CliOutcome" where
  "main pInt args =
     (if args = [] \<or> ''-h'' \<in> set args \<or> ''--help'' \<in> set args then Exit 0
      else
        (let a = parseArgs pInt args initialArgs in
         if cli_historyFiles a = [] then Exit 1
         else
           (case cli_outputFile a of
              None \<Rightarrow> Exit 1
            | Some out \<Rightarrow> if out = [] then Exit 1
                          else CallMerge (cli_historyFiles a) out (cli_maxRuns a))))"

text \<open>
  The exit code of the process. \<open>mergeHistories\<close> is imported from a module that is not
  among the sources, so the way its call ends is a parameter: when it returns, the script
  ends and the code is 0; when it throws, nothing catches and the runtime ends the
  process with code 1.
\<close>

datatype MergeEnd = Returned | Threw

definition exitCode :: "(string list \<Rightarrow> string \<Rightarrow> int option \<Rightarrow> MergeEnd) \<Rightarrow> CliOutcome \<Rightarrow> nat" where
  "exitCode mergeEnd out =
     (case out of
        Exit n \<Rightarrow> n
      | CallMerge fs outFile maxRuns \<Rightarrow>
          (case mergeEnd fs outFile maxRuns of Returned \<Rightarrow> 0 | Threw \<Rightarrow> 1))"

section \<open>Merging history documents\<close>

text \<open>
  \<open>mergeHistories\<close> is imported by \<open>src/src/merge-history.ts\<close> from \<open>./smart-reporter\<close>; no
  source file defines it. The two definitions of this section follow the specification
  (section 4.1, Merge); "truncated to the last maxHistoryRuns" is \<open>lastN\<close>. Timestamps are ISO-8601 strings of one fixed format, which the
  lexicographic order on strings sorts chronologically.
\<close>



section \<open>Sample inputs\<close>

text \<open>A reporter built by the constructor with every option left to its default, holding a
  history document with one test, and the end of that test in the current run.\<close>

definition sampleOptions :: Options where
  "sampleOptions = options (constructor None None None None None None)"

definition entry :: "bool \<Rightarrow> rat \<Rightarrow> bool \<Rightarrow> TestHistoryEntry" where
  "entry p d s =
     \<lparr> e_passed = p, e_duration = d, e_timestamp = ''2024-12-12T10:00:00.000Z'',
       e_skipped = Some s \<rparr>"

definition sampleReporter :: "TestHistoryEntry list \<Rightarrow> SmartReporter" where
  "sampleReporter es =
     (constructor None None None None None None)\<lparr> history :=
        \<lparr> runs = [], tests = [''a.spec.ts::t1'' \<mapsto> es], summaries = Some [] \<rparr> \<rparr>"

definition sampleEnd :: "Status \<Rightarrow> rat \<Rightarrow> TestEnd" where
  "sampleEnd st d =
     \<lparr> te_file = ''a.spec.ts'', te_title = ''t1'', te_status = st, te_duration = d,
       te_retry = 0 \<rparr>"

lemmas sample_defs =
  sampleOptions_def entry_def sampleReporter_def sampleEnd_def constructor_def emptyHistory_def

definition sampleResult :: "string \<Rightarrow> Status \<Rightarrow> TestResultData" where
  "sampleResult tid st =
     \<lparr> testId = tid, title = ''t'', file = ''a.spec.ts'', status = st, duration = 5, retry = 0,
       flakinessScore = None, flakinessIndicator = None, performanceTrend = None,
       averageDuration = None, historyEntries = [] \<rparr>"

definition sampleSummary :: "string \<Rightarrow> string \<Rightarrow> RunSummary" where
  "sampleSummary rid ts =
     \<lparr> s_runId = rid, s_timestamp = ts, s_total = 3, s_passed = 2, s_failed = 1, s_skipped = 0,
       s_flaky = 0, s_slow = 0, s_duration = 1000, s_passRate = 67 \<rparr>"

text \<open>A reporter at the end of a run with one passed and one timed-out test, holding the
  given summaries.\<close>

definition summariesReporter :: "RunSummary list \<Rightarrow> SmartReporter" where
  "summariesReporter ss =
     (constructor None None None None None None)\<lparr> history :=
        \<lparr> runs = [], tests = Map.empty, summaries = Some ss \<rparr>,
        results := [sampleResult ''a.spec.ts::t1'' Passed,
                    sampleResult ''a.spec.ts::t2'' TimedOut] \<rparr>"

text \<open>A \<open>JSON.parse\<close> that knows one text, a legacy document, and rejects every other.\<close>

definition sampleParse :: "string \<Rightarrow> json option" where
  "sampleParse text =
     (if text = ''legacy'' then
        Some (JObj [(''a.spec.ts::t1'', JArr [JObj [(''passed'', JBool True),
                       (''duration'', JNum 12),
                       (''timestamp'', JStr ''2024-12-10T10:00:00.000Z'')]])])
      else None)"

definition sampleParseInt :: "string \<Rightarrow> int option" where
  "sampleParseInt text = (if text = ''5'' then Some 5 else None)"

definition sampleMergeEnd :: "string list \<Rightarrow> string \<Rightarrow> int option \<Rightarrow> MergeEnd" where
  "sampleMergeEnd fs out n = Returned"

text \<open>A reporter with the cap \<open>cap\<close>, a stored history for one test and the results of the
  current run; and a run in which that test fails.\<close>

definition cappedReporter :: "int \<Rightarrow> TestHistoryEntry list \<Rightarrow> TestResultData list \<Rightarrow> SmartReporter" where
  "cappedReporter cap es rs =
     (constructor None None (Some cap) None None None)\<lparr> history :=
        \<lparr> runs = [], tests = [''a.spec.ts::t1'' \<mapsto> es], summaries = Some [] \<rparr>,
        results := rs \<rparr>"

definition sampleRun :: Run where
  "sampleRun =
     \<lparr> run_meta = \<lparr> m_runId = ''run-1734087600000'', m_timestamp = ''2024-12-13T11:00:00.000Z'' \<rparr>,
       run_start = 1734087600000,
       run_events = [sampleEnd Failed 5],
       run_endIso = ''2024-12-13T11:00:09.000Z'',
       run_endNow = 1734087609000 \<rparr>"




section \<open>Flakiness indicator of a test\<close>

text \<open>
  Claim C7. A test that ends skipped gets the indicator Skipped whatever its history holds,
  and no score. A test that ends otherwise and whose history is empty or holds only skipped
  entries gets the indicator New, which is not Stable, and no score.
\<close>

theorem onTestEnd_skipped_or_new:
  fixes rep ev
  defines "hist \<equiv> (case tests (history rep) (getTestId (te_file ev) (te_title ev)) of
                      None \<Rightarrow> [] | Some es \<Rightarrow> es)"
  defines "td \<equiv> last (results (onTestEnd rep ev))"
  shows "(te_status ev = Skipped \<longrightarrow>
            flakinessIndicator td = Some SkippedIndicator \<and> flakinessScore td = None) \<and>
         (te_status ev \<noteq> Skipped \<and> (\<forall>e \<in> set hist. e_skipped e = Some True) \<longrightarrow>
            flakinessIndicator td = Some New \<and> flakinessIndicator td \<noteq> Some Stable \<and>
            flakinessScore td = None)"
  unfolding td_def hist_def
  by (auto simp add: onTestEnd_def Let_def notSkipped_def filter_empty_conv split: option.splits)

theorem onTestEnd_skipped_or_new_witness:
  "te_status (sampleEnd Skipped 5) = Skipped \<and>
   flakinessIndicator (last (results
      (onTestEnd (sampleReporter [entry False 10 False]) (sampleEnd Skipped 5))))
     = Some SkippedIndicator \<and>
   te_status (sampleEnd Passed 5) \<noteq> Skipped \<and>
   flakinessIndicator (last (results
      (onTestEnd (sampleReporter [entry True 10 True]) (sampleEnd Passed 5))))
     = Some New \<and>
   flakinessScore (last (results
      (onTestEnd (sampleReporter [entry True 10 True]) (sampleEnd Passed 5))))
     = None"
  using onTestEnd_skipped_or_new [of "sampleEnd Skipped 5" "sampleReporter [entry False 10 False]"]
        onTestEnd_skipped_or_new [of "sampleEnd Passed 5" "sampleReporter [entry True 10 True]"]
  by (simp add: sample_defs getTestId_def)

text \<open>
  Claim C2. For a test that does not end skipped and whose history has a non-skipped entry,
  the score is the number of non-skipped entries that did not pass divided by the number of
  non-skipped entries; the indicator is Stable below 0.10, Unstable from 0.10 and below
  0.30, Flaky from 0.30; 0.29 is Unstable and 0.30 is Flaky.
\<close>

theorem onTestEnd_flakiness_score:
  fixes rep ev
  defines "hist \<equiv> (case tests (history rep) (getTestId (te_file ev) (te_title ev)) of
                      None \<Rightarrow> [] | Some es \<Rightarrow> es)"
  defines "td \<equiv> last (results (onTestEnd rep ev))"
  defines "score \<equiv> (of_nat (length (filter (\<lambda>e. notSkipped e \<and> \<not> e_passed e) hist))
                      / of_nat (length (filter notSkipped hist)) :: rat)"
  assumes "te_status ev \<noteq> Skipped" and "filter notSkipped hist \<noteq> []"
  shows "flakinessScore td = Some score \<and>
         flakinessIndicator td =
           Some (if score < 1 / 10 then Stable else if score < 3 / 10 then Unstable else Flaky) \<and>
         getFlakinessIndicator (29 / 100) = Unstable \<and>
         getFlakinessIndicator (30 / 100) = Flaky"
proof -
  from assms(5) have "hist \<noteq> []" by auto
  then have len: "0 < length hist" by simp
  show ?thesis
    using assms(4,5) len unfolding td_def score_def hist_def
    by (simp add: onTestEnd_def Let_def getFlakinessIndicator_def)
qed

theorem onTestEnd_flakiness_score_witness:
  "te_status (sampleEnd Failed 5) \<noteq> Skipped \<and>
   flakinessScore (last (results (onTestEnd
      (sampleReporter [entry True 10 False, entry False 10 False, entry True 10 True,
                       entry True 10 False])
      (sampleEnd Failed 5)))) = Some (1 / 3) \<and>
   flakinessIndicator (last (results (onTestEnd
      (sampleReporter [entry True 10 False, entry False 10 False, entry True 10 True,
                       entry True 10 False])
      (sampleEnd Failed 5)))) = Some Flaky"
  using onTestEnd_flakiness_score [of "sampleEnd Failed 5"
      "sampleReporter [entry True 10 False, entry False 10 False, entry True 10 True,
                       entry True 10 False]"]
  by (simp add: sample_defs getTestId_def notSkipped_def)

section \<open>Performance trend with an average of zero\<close>

text \<open>
  Claim C4 asks that an average duration of exactly 0 yields the neutral label. The code
  divides without a guard: with the default threshold, a test that takes 5 ms and whose
  only earlier run took 0 ms has the average 0, the quotient is plus infinity, and the
  label is the one for a slower test, with infinity as its percentage. Nothing is thrown.
\<close>

lemma round53_0: "round53 0 = 0"
  by (simp add: round53_def)

lemma double_0: "double 0 = Fin 0"
  by (simp add: double_def round53_0)

lemma double_5: "double 5 = Fin 5"
  by code_simp

theorem getPerformanceTrend_zero_average:
  "getPerformanceTrend sampleOptions 5 0 = Slower PosInf \<and>
   averageDuration (last (results
      (onTestEnd (sampleReporter [entry True 0 False]) (sampleEnd Passed 5)))) = Some 0 \<and>
   performanceTrend (last (results
      (onTestEnd (sampleReporter [entry True 0 False]) (sampleEnd Passed 5))))
     = Some (Slower PosInf)"
  by (simp add: sample_defs getTestId_def notSkipped_def onTestEnd_def Let_def
        getPerformanceTrend_def round53_0 double_5)

text \<open>Against an average of 0, a current duration of 0 gives the neutral label: the quotient
  is then NaN, and both comparisons fail. Every current duration whose difference to 0 rounds
  to a positive double gives the label of a slower test.\<close>

lemma getPerformanceTrend_zero_zero: "getPerformanceTrend opts 0 0 = StableTrend"
  by (simp add: getPerformanceTrend_def double_0)

lemma getPerformanceTrend_zero_positive:
  "double (current - 0) = Fin d \<Longrightarrow> 0 < d \<Longrightarrow>
     getPerformanceTrend opts current 0 = Slower PosInf"
  by (simp add: getPerformanceTrend_def)

text \<open>The same arithmetic on inputs where the rounding decides. A history of 10, 10 and
  15 ms has the mean \<open>round53 (35 / 3)\<close>; a current 14 ms gives a quotient one unit in the last
  place above the threshold \<open>0.2\<close>, hence the label of a slower test. 63 ms against an average
  of 40 ms prints 57, the product with 100 being the double just below 57.5.\<close>

lemma sampleThreshold:
  "performanceThreshold sampleOptions = 3602879701896397 / 18014398509481984"
  by code_simp

lemma getPerformanceTrend_rounding_mean:
  "getPerformanceTrend sampleOptions 14 (round53 (35 / 3)) = Slower (Fin 20)"
proof -
  have m: "round53 (35 / 3) = 6567749456581973 / 562949953421312"
    by code_simp
  have d: "double (14 - 6567749456581973 / 562949953421312)
             = Fin (1313549891316395 / 562949953421312)"
    by code_simp
  have nz: "(6567749456581973 / 562949953421312 :: rat) \<noteq> 0"
    by simp
  have q: "double ((1313549891316395 / 562949953421312) / (6567749456581973 / 562949953421312))
             = Fin (1801439850948199 / 9007199254740992)"
    by code_simp
  have c: "js_gt (Fin (1801439850948199 / 9007199254740992))
             (3602879701896397 / 18014398509481984)"
    by simp
  have p: "double (1801439850948199 / 9007199254740992 * 100)
             = Fin (2814749767106561 / 140737488355328)"
    by code_simp
  have r: "js_round (Fin (2814749767106561 / 140737488355328)) = Fin 20"
    by code_simp
  show ?thesis
    unfolding getPerformanceTrend_def Let_def
    by (simp only: m d js_div.simps nz not_False_eq_True if_True q sampleThreshold c
          js_times.simps p r)
qed

lemma getPerformanceTrend_rounding_product:
  "getPerformanceTrend sampleOptions 63 40 = Slower (Fin 57)"
proof -
  have d: "double (63 - 40) = Fin 23"
    by code_simp
  have nz: "(40 :: rat) \<noteq> 0"
    by simp
  have q: "double (23 / 40) = Fin (2589569785738035 / 4503599627370496)"
    by code_simp
  have c: "js_gt (Fin (2589569785738035 / 4503599627370496))
             (3602879701896397 / 18014398509481984)"
    by simp
  have p: "double (2589569785738035 / 4503599627370496 * 100)
             = Fin (8092405580431359 / 140737488355328)"
    by code_simp
  have r: "js_round (Fin (8092405580431359 / 140737488355328)) = Fin 57"
    by code_simp
  show ?thesis
    unfolding getPerformanceTrend_def Let_def
    by (simp only: d js_div.simps nz not_False_eq_True if_True q sampleThreshold c
          js_times.simps p r)
qed

text \<open>The first of the two through \<open>onTestEnd\<close>: the three durations are summed and divided
  in doubles.\<close>

lemma onTestEnd_rounding_mean:
  "averageDuration (last (results (onTestEnd
      (sampleReporter [entry True 10 False, entry True 10 False, entry True 15 False])
      (sampleEnd Passed 14)))) = Some (round53 (35 / 3)) \<and>
   performanceTrend (last (results (onTestEnd
      (sampleReporter [entry True 10 False, entry True 10 False, entry True 15 False])
      (sampleEnd Passed 14)))) = Some (Slower (Fin 20))"
proof -
  have r10: "round53 10 = 10" by code_simp
  have r20: "round53 20 = 20" by code_simp
  have r35: "round53 35 = 35" by code_simp
  have opts: "options (sampleReporter
                [entry True 10 False, entry True 10 False, entry True 15 False]) = sampleOptions"
    by (simp add: sampleReporter_def sampleOptions_def)
  have hist: "tests (history (sampleReporter
                [entry True 10 False, entry True 10 False, entry True 15 False]))
                (getTestId (te_file (sampleEnd Passed 14)) (te_title (sampleEnd Passed 14)))
              = Some [entry True 10 False, entry True 10 False, entry True 15 False]"
    by (simp add: sampleReporter_def sampleEnd_def getTestId_def)
  have mean: "round53 (foldl (\<lambda>sum e. round53 (sum + e_duration e)) 0
                 [entry True 10 False, entry True 10 False, entry True 15 False]
               / of_nat (length [entry True 10 False, entry True 10 False, entry True 15 False]))
              = round53 (35 / 3)"
    by (simp add: entry_def r10 r20 r35)
  have skipped: "filter notSkipped [entry True 10 False, entry True 10 False, entry True 15 False]
                   = [entry True 10 False, entry True 10 False, entry True 15 False]"
    by (simp add: notSkipped_def entry_def)
  have st: "te_status (sampleEnd Passed 14) \<noteq> Skipped" "te_duration (sampleEnd Passed 14) = 14"
    by (simp_all add: sampleEnd_def)
  show ?thesis
    unfolding onTestEnd_def Let_def hist
    using st
    by (simp add: skipped mean opts getPerformanceTrend_rounding_mean
          del: foldl.simps filter.simps list.size)
qed

section \<open>Recording a run leaves other tests alone\<close>

lemma recordResult_other: "tid \<noteq> testId r \<Longrightarrow> recordResult n ts m r tid = m tid"
  by (simp add: recordResult_def Let_def)

lemma foldl_recordResult_other:
  "tid \<notin> testId ` set rs \<Longrightarrow> foldl (recordResult n ts) m rs tid = m tid"
  by (induction rs arbitrary: m) (auto simp: recordResult_other)

text \<open>
  Claim C9. A test identity that does not occur among the results of the current run keeps
  its sequence of history entries exactly as it was: \<open>updateHistory\<close> neither appends to it
  nor trims it.
\<close>

theorem updateHistory_frame:
  "tid \<notin> testId ` set (results rep) \<Longrightarrow>
     tests (history (updateHistory timestamp now rep)) tid = tests (history rep) tid"
  by (simp add: updateHistory_def Let_def foldl_recordResult_other)

theorem updateHistory_frame_witness:
  "''a.spec.ts::t1'' \<notin> testId ` set [sampleResult ''b.spec.ts::t2'' Passed] \<and>
   tests (history (updateHistory ''2024-12-13T10:00:00.000Z'' 100
      ((sampleReporter [entry True 10 False])
         \<lparr> results := [sampleResult ''b.spec.ts::t2'' Passed] \<rparr>)))
     ''a.spec.ts::t1'' = Some [entry True 10 False]"
  using updateHistory_frame [of "''a.spec.ts::t1''"
      "(sampleReporter [entry True 10 False])
         \<lparr> results := [sampleResult ''b.spec.ts::t2'' Passed] \<rparr>"
      "''2024-12-13T10:00:00.000Z''" 100]
  by (simp add: sample_defs sampleResult_def)

section \<open>Failed count of the page and of the summary\<close>

lemma count_failed_timedOut:
  "countStatus (\<lambda>s. s = Failed \<or> s = TimedOut) rs =
     countStatus (\<lambda>s. s = Failed) rs + countStatus (\<lambda>s. s = TimedOut) rs"
  by (induction rs) (auto simp: countStatus_def)

text \<open>
  Claim C10. The failed count of the page counts the tests with status failed only; the
  failed count of the run summary counts failed and timed-out tests. From the same results
  the page's count is the summary's count minus the number of timed-out tests, and it is
  strictly smaller as soon as one test timed out. The pass rate follows the failed count:
  both are \<open>Math.round(passed / (passed + failed) * 100)\<close> in double arithmetic, or 0 when
  the sum is 0, the page's with its own failed count, the summary's with the larger one;
  7 passed and 3 failed give 70, 23 passed and 17 failed give 57, and one passed with one
  timed-out test gives 100 on the page and 50 in the summary. With a positive cap the
  summary is the last one of the document that is written.
\<close>

theorem html_failed_excludes_timedOut:
  fixes rep now timestamp
  defines "timedOutCount \<equiv> countStatus (\<lambda>s. s = TimedOut) (results rep)"
  defines "passedCount \<equiv> countStatus (\<lambda>s. s = Passed) (results rep)"
  defines "rate \<equiv> \<lambda>p f :: nat.
             (if 0 < p + f
              then \<lfloor>round53 (round53 (of_nat p / of_nat (p + f)) * 100) + 1 / 2\<rfloor>
              else (0 :: int))"
  shows "h_failed (generateHtml rep) = countStatus (\<lambda>s. s = Failed) (results rep) \<and>
         s_failed (runSummary now rep)
           = countStatus (\<lambda>s. s = Failed \<or> s = TimedOut) (results rep) \<and>
         h_failed (generateHtml rep) = s_failed (runSummary now rep) - timedOutCount \<and>
         timedOutCount \<le> s_failed (runSummary now rep) \<and>
         ((\<exists>r \<in> set (results rep). status r = TimedOut) \<longrightarrow>
            h_failed (generateHtml rep) < s_failed (runSummary now rep)) \<and>
         (0 < maxHistoryRuns (options rep) \<longrightarrow>
            map_option last (summaries (history (updateHistory timestamp now rep)))
              = Some (runSummary now rep)) \<and>
         h_passRate (generateHtml rep)
           = rate passedCount (s_failed (runSummary now rep) - timedOutCount) \<and>
         s_passRate (runSummary now rep) = rate passedCount (s_failed (runSummary now rep)) \<and>
         h_passRate (generateHtml (summariesReporter [])) = 100 \<and>
         s_passRate (runSummary 5000 (summariesReporter [])) = 50 \<and>
         passRateOf 7 3 = 70 \<and> passRateOf 23 17 = 57 \<and> passRateOf 0 0 = 0"
proof -
  have pos: "(\<exists>r \<in> set (results rep). status r = TimedOut) \<Longrightarrow> 0 < timedOutCount"
    unfolding timedOutCount_def countStatus_def
    by (simp add: filter_empty_conv)
  have persisted: "0 < maxHistoryRuns (options rep) \<Longrightarrow>
      map_option last (summaries (history (updateHistory timestamp now rep)))
        = Some (runSummary now rep)"
    by (simp add: updateHistory_def Let_def js_slice_def)
  have counts: "h_failed (generateHtml rep) = countStatus (\<lambda>s. s = Failed) (results rep) \<and>
         s_failed (runSummary now rep)
           = countStatus (\<lambda>s. s = Failed \<or> s = TimedOut) (results rep) \<and>
         h_failed (generateHtml rep) = s_failed (runSummary now rep) - timedOutCount \<and>
         timedOutCount \<le> s_failed (runSummary now rep) \<and>
         ((\<exists>r \<in> set (results rep). status r = TimedOut) \<longrightarrow>
            h_failed (generateHtml rep) < s_failed (runSummary now rep))"
    using pos unfolding timedOutCount_def
    by (simp add: generateHtml_def runSummary_def Let_def count_failed_timedOut)
  have hrate: "h_passRate (generateHtml rep)
                 = rate passedCount (s_failed (runSummary now rep) - timedOutCount)"
    unfolding rate_def passedCount_def timedOutCount_def
    by (simp add: generateHtml_def runSummary_def Let_def count_failed_timedOut passRateOf_def)
  have srate: "s_passRate (runSummary now rep)
                 = rate passedCount (s_failed (runSummary now rep))"
    unfolding rate_def passedCount_def
    by (simp add: runSummary_def Let_def passRateOf_def)
  have page: "h_passRate (generateHtml (summariesReporter [])) = 100"
    by code_simp
  have summary: "s_passRate (runSummary 5000 (summariesReporter [])) = 50"
    by code_simp
  have spec: "passRateOf 7 3 = 70"
    by code_simp
  have below_tie: "passRateOf 23 17 = 57"
    by code_simp
  have none: "passRateOf 0 0 = 0"
    by (simp add: passRateOf_def)
  from counts persisted hrate srate page summary spec below_tie none
  show ?thesis by blast
qed

theorem html_failed_excludes_timedOut_witness:
  "status (sampleResult ''a.spec.ts::t2'' TimedOut) = TimedOut \<and>
   0 < maxHistoryRuns (options (summariesReporter [])) \<and>
   h_failed (generateHtml (summariesReporter []))
     < s_failed (runSummary 5000 (summariesReporter [])) \<and>
   h_failed (generateHtml (summariesReporter [])) = 0 \<and>
   map_option last (summaries (history
      (updateHistory ''2024-12-13T10:00:00.000Z'' 5000 (summariesReporter []))))
     = Some (runSummary 5000 (summariesReporter [])) \<and>
   h_passRate (generateHtml (summariesReporter [])) = 100 \<and>
   s_passRate (runSummary 5000 (summariesReporter [])) = 50"
proof -
  have timedOut: "\<exists>r \<in> set (results (summariesReporter [])). status r = TimedOut"
    by (simp add: summariesReporter_def sampleResult_def)
  have cap: "0 < maxHistoryRuns (options (summariesReporter []))"
    by (simp add: summariesReporter_def constructor_def)
  have none_failed: "countStatus (\<lambda>s. s = Failed) (results (summariesReporter [])) = 0"
    by (simp add: summariesReporter_def sampleResult_def countStatus_def)
  note inst = html_failed_excludes_timedOut
        [of "summariesReporter []" 5000 "''2024-12-13T10:00:00.000Z''"]
  have lt: "h_failed (generateHtml (summariesReporter []))
              < s_failed (runSummary 5000 (summariesReporter []))"
    using inst timedOut by blast
  have zero: "h_failed (generateHtml (summariesReporter [])) = 0"
    using inst none_failed by simp
  have last: "map_option last (summaries (history
      (updateHistory ''2024-12-13T10:00:00.000Z'' 5000 (summariesReporter []))))
     = Some (runSummary 5000 (summariesReporter []))"
    using inst cap by blast
  have rates: "h_passRate (generateHtml (summariesReporter [])) = 100 \<and>
               s_passRate (runSummary 5000 (summariesReporter [])) = 50"
    using inst by blast
  have st: "status (sampleResult ''a.spec.ts::t2'' TimedOut) = TimedOut"
    by (simp add: sampleResult_def)
  from st cap lt zero last rates show ?thesis by blast
qed

section \<open>Trend chart\<close>

text \<open>
  Claim C5. With fewer than two stored summaries \<open>generateTrendChart\<close> returns the empty
  result. With two or more, every row of the chart has one bar for each stored summary, in
  their order, followed by one bar for the current run, which is not stored yet.
\<close>

theorem generateTrendChart_points:
  fixes rep now
  defines "smrs \<equiv> (case summaries (history rep) of None \<Rightarrow> [] | Some ss \<Rightarrow> ss)"
  shows "(length smrs < 2 \<longrightarrow> generateTrendChart now rep = None) \<and>
         (2 \<le> length smrs \<longrightarrow>
            (\<exists>c. generateTrendChart now rep = Some c \<and>
                 subtitleRuns c = length smrs + 1 \<and>
                 length (trendChart c) = length smrs + 1 \<and>
                 length (durationChart c) = length smrs + 1 \<and>
                 length (flakyChart c) = length smrs + 1 \<and>
                 length (slowChart c) = length smrs + 1 \<and>
                 butlast (trendChart c)
                   = map (\<lambda>s. stackedBar (s_passed s) (s_failed s) False) smrs \<and>
                 last (trendChart c) =
                   stackedBar (countStatus (\<lambda>s. s = Passed) (results rep))
                     (countStatus (\<lambda>s. s = Failed \<or> s = TimedOut) (results rep)) True))"
  unfolding smrs_def
  by (simp add: generateTrendChart_def Let_def)

theorem generateTrendChart_points_witness:
  "generateTrendChart 5000
     (summariesReporter [sampleSummary ''run-1'' ''2024-12-10T10:00:00.000Z'']) = None \<and>
   map_option (\<lambda>c. length (trendChart c))
     (generateTrendChart 5000 (summariesReporter
        [sampleSummary ''run-1'' ''2024-12-10T10:00:00.000Z'',
         sampleSummary ''run-2'' ''2024-12-11T10:00:00.000Z''])) = Some 3"
  using generateTrendChart_points
          [of "summariesReporter [sampleSummary ''run-1'' ''2024-12-10T10:00:00.000Z'']" 5000]
        generateTrendChart_points
          [of "summariesReporter
                [sampleSummary ''run-1'' ''2024-12-10T10:00:00.000Z'',
                 sampleSummary ''run-2'' ''2024-12-11T10:00:00.000Z'']" 5000]
  by (auto simp add: summariesReporter_def constructor_def)

section \<open>Loading never fails\<close>

lemma getTestId_not_tests: "getTestId f t \<noteq> ''tests''"
proof
  assume "getTestId f t = ''tests''"
  then have "set (getTestId f t) = set ''tests''" by simp
  moreover have "CHR '':'' \<in> set (getTestId f t)" by (simp add: getTestId_def)
  ultimately show False by simp
qed

lemma legacy_no_tests_member:
  assumes "\<forall>k \<in> fst ` set kvs. \<exists>f t. k = getTestId f t"
  shows "map_of kvs ''tests'' = None"
proof -
  have "''tests'' \<notin> fst ` set kvs"
  proof
    assume "''tests'' \<in> fst ` set kvs"
    with assms obtain f t where "''tests'' = getTestId f t" by blast
    then show False using getTestId_not_tests [of f t] by simp
  qed
  then show ?thesis by (simp add: map_of_eq_None_iff)
qed

text \<open>
  Claim C6. \<open>loadHistory\<close> always ends with a document. When the file is missing the
  document stays what it was, and a reporter starts with the empty document. When the text
  does not parse, and whenever anything else is thrown while the file is read, the document
  is the empty one. When the text parses to a legacy document, an object whose keys are test
  identities, that object becomes the \<open>tests\<close> member of a document with empty \<open>runs\<close> and
  \<open>summaries\<close>.
\<close>

theorem loadHistory_never_fails:
  "loadHistory parse Missing cur = cur \<and>
   loadHistory parse Missing emptyDocument = emptyDocument \<and>
   (parse text = None \<longrightarrow> loadHistory parse (Content text) cur = emptyDocument) \<and>
   (\<forall>e. fs \<noteq> Missing \<and> loadHistory_try parse fs = Inl e \<longrightarrow>
        loadHistory parse fs cur = emptyDocument) \<and>
   (parse text = Some (JObj kvs) \<and> (\<forall>k \<in> fst ` set kvs. \<exists>f t. k = getTestId f t) \<longrightarrow>
      loadHistory parse (Content text) cur =
        JObj [(''runs'', JArr []), (''tests'', JObj kvs), (''summaries'', JArr [])])"
  using legacy_no_tests_member [of kvs]
  by (auto simp add: loadHistory_def loadHistory_try_def)

theorem loadHistory_never_fails_witness:
  "sampleParse ''{broken'' = None \<and>
   loadHistory sampleParse (Content ''{broken'') (JObj []) = emptyDocument \<and>
   loadHistory_try sampleParse Unreadable = Inl IOError \<and>
   loadHistory sampleParse Unreadable (JObj []) = emptyDocument \<and>
   loadHistory sampleParse (Content ''legacy'') (JObj []) =
     JObj [(''runs'', JArr []),
           (''tests'', JObj [(''a.spec.ts::t1'', JArr [JObj [(''passed'', JBool True),
               (''duration'', JNum 12), (''timestamp'', JStr ''2024-12-10T10:00:00.000Z'')]])]),
           (''summaries'', JArr [])]"
proof -
  have k: "''a.spec.ts::t1'' = getTestId ''a.spec.ts'' ''t1''" by (simp add: getTestId_def)
  have ex: "\<exists>f t. ''a.spec.ts::t1'' = getTestId f t" using k by blast
  show ?thesis
    using ex
      loadHistory_never_fails [of sampleParse "JObj []" "''{broken''" Unreadable]
      loadHistory_never_fails [of sampleParse "JObj []" "''legacy''" Unreadable
        "[(''a.spec.ts::t1'', JArr [JObj [(''passed'', JBool True), (''duration'', JNum 12),
                       (''timestamp'', JStr ''2024-12-10T10:00:00.000Z'')]])]"]
    by (simp add: sampleParse_def loadHistory_try_def)
qed

section \<open>Exit codes of the merge command line\<close>

text \<open>
  Claim C8 says that the code is 1 whenever no history file or no output path is given.
  Called with no argument at all, \<open>main\<close> has neither, prints the usage text and exits
  with code 0.
\<close>

theorem main_no_arguments_counterexample:
  "cli_historyFiles (parseArgs sampleParseInt [] initialArgs) = [] \<and>
   cli_outputFile (parseArgs sampleParseInt [] initialArgs) = None \<and>
   main sampleParseInt [] = Exit 0 \<and>
   exitCode sampleMergeEnd (main sampleParseInt []) \<noteq> 1"
  by (simp add: main_def exitCode_def initialArgs_def)

text \<open>
  Claim C8 as amended. The code is 0 when there is no argument at all or when \<open>-h\<close> or
  \<open>--help\<close> is among the arguments. Otherwise the code is 1 when the arguments name no
  history file or no (non-empty) output path. Otherwise \<open>main\<close> calls \<open>mergeHistories\<close> with
  the parsed files, output path and run limit, and the code is 0 when that call returns.
\<close>

theorem main_exit_codes:
  fixes pInt args mergeEnd
  defines "a \<equiv> parseArgs pInt args initialArgs"
  defines "usage \<equiv> (args = [] \<or> ''-h'' \<in> set args \<or> ''--help'' \<in> set args)"
  shows "(usage \<longrightarrow> exitCode mergeEnd (main pInt args) = 0) \<and>
         (\<not> usage \<and>
          (cli_historyFiles a = [] \<or> cli_outputFile a = None \<or> cli_outputFile a = Some [])
            \<longrightarrow> exitCode mergeEnd (main pInt args) = 1) \<and>
         (\<not> usage \<and> cli_historyFiles a \<noteq> [] \<and> cli_outputFile a \<noteq> None \<and>
          cli_outputFile a \<noteq> Some []
            \<longrightarrow> main pInt args
                  = CallMerge (cli_historyFiles a) (the (cli_outputFile a)) (cli_maxRuns a) \<and>
                (mergeEnd (cli_historyFiles a) (the (cli_outputFile a)) (cli_maxRuns a) = Returned
                   \<longrightarrow> exitCode mergeEnd (main pInt args) = 0))"
  unfolding a_def usage_def
  by (auto simp add: main_def exitCode_def Let_def split: option.splits)

theorem main_exit_codes_witness:
  "exitCode sampleMergeEnd (main sampleParseInt [''--help'']) = 0 \<and>
   exitCode sampleMergeEnd (main sampleParseInt [''-o'', ''out.json'']) = 1 \<and>
   exitCode sampleMergeEnd (main sampleParseInt [''a.json'', ''b.json'']) = 1 \<and>
   main sampleParseInt [''a.json'', ''b.json'', ''-n'', ''5'', ''-o'', ''out.json'']
     = CallMerge [''a.json'', ''b.json''] ''out.json'' (Some 5) \<and>
   exitCode sampleMergeEnd
     (main sampleParseInt [''a.json'', ''b.json'', ''-n'', ''5'', ''-o'', ''out.json'']) = 0"
  using main_exit_codes [where args = "[''--help'']" and pInt = sampleParseInt
                           and mergeEnd = sampleMergeEnd]
        main_exit_codes [where args = "[''-o'', ''out.json'']" and pInt = sampleParseInt
                           and mergeEnd = sampleMergeEnd]
        main_exit_codes [where args = "[''a.json'', ''b.json'']" and pInt = sampleParseInt
                           and mergeEnd = sampleMergeEnd]
        main_exit_codes [where args = "[''a.json'', ''b.json'', ''-n'', ''5'', ''-o'', ''out.json'']"
                           and pInt = sampleParseInt and mergeEnd = sampleMergeEnd]
  by (simp add: initialArgs_def startsWithDash_def sampleParseInt_def sampleMergeEnd_def
        exitCode_def)

section \<open>The history window\<close>

lemma js_slice_neg: "0 < n \<Longrightarrow> js_slice (- n) xs = lastN (nat n) xs"
  by (auto simp add: js_slice_def lastN_def Let_def max_def intro: arg_cong [where f = "\<lambda>k. drop k xs"])

lemma trim_lastN:
  "0 < n \<Longrightarrow> (if int (length xs) > n then js_slice (- n) xs else xs) = lastN (nat n) xs"
  by (auto simp add: js_slice_neg) (simp add: lastN_def)

lemma length_lastN: "length (lastN k xs) \<le> k"
  by (simp add: lastN_def)

lemma lastN_rev: "lastN k xs = rev (take k (rev xs))"
  by (simp add: lastN_def take_rev)

lemma lastN_lastN_append: "lastN k (lastN k xs @ ys) = lastN k (xs @ ys)"
  by (simp add: lastN_rev min_def)

lemma recordResult_same:
  "0 < n \<Longrightarrow> recordResult n ts m r (testId r) =
     Some (lastN (nat n) ((case m (testId r) of None \<Rightarrow> [] | Some es \<Rightarrow> es) @ [newEntry ts r]))"
  unfolding recordResult_def Let_def by (simp only: trim_lastN fun_upd_same)

lemma filter_testId_absent:
  "tid \<notin> testId ` set rs \<Longrightarrow> filter (\<lambda>r. testId r = tid) rs = []"
  by (auto simp add: filter_empty_conv)

lemma foldl_recordResult:
  "0 < n \<Longrightarrow> foldl (recordResult n ts) m rs tid =
     (if tid \<in> testId ` set rs then
        Some (lastN (nat n) ((case m tid of None \<Rightarrow> [] | Some es \<Rightarrow> es)
                @ map (newEntry ts) (filter (\<lambda>r. testId r = tid) rs)))
      else m tid)"
proof (induction rs arbitrary: m)
  case Nil
  then show ?case by simp
next
  case (Cons r rs)
  show ?case
  proof (cases "tid = testId r")
    case True
    then show ?thesis
      using Cons.prems Cons.IH [OF Cons.prems, of "recordResult n ts m r"]
      by (simp add: recordResult_same lastN_lastN_append filter_testId_absent)
  next
    case False
    then show ?thesis
      using Cons.prems Cons.IH [OF Cons.prems, of "recordResult n ts m r"]
      by (auto simp add: recordResult_other)
  qed
qed

lemma onTestEnd_keeps:
  "history (onTestEnd rep ev) = history rep \<and> options (onTestEnd rep ev) = options rep"
  by (simp add: onTestEnd_def Let_def)

lemma foldl_onTestEnd_keeps:
  "history (foldl onTestEnd rep evs) = history rep \<and>
   options (foldl onTestEnd rep evs) = options rep"
  by (induction evs arbitrary: rep) (simp_all add: onTestEnd_keeps)

lemma updateHistory_tests:
  "0 < maxHistoryRuns (options rep) \<Longrightarrow>
   tests (history (updateHistory ts now rep)) tid =
     (if tid \<in> testId ` set (results rep) then
        Some (lastN (nat (maxHistoryRuns (options rep)))
               ((case tests (history rep) tid of None \<Rightarrow> [] | Some es \<Rightarrow> es)
                @ map (newEntry ts) (filter (\<lambda>r. testId r = tid) (results rep))))
      else tests (history rep) tid)"
  by (simp add: updateHistory_def Let_def foldl_recordResult)

lemma updateHistory_summaries:
  "0 < maxHistoryRuns (options rep) \<Longrightarrow>
   summaries (history (updateHistory ts now rep)) =
     Some (lastN (nat (maxHistoryRuns (options rep)))
            ((case summaries (history rep) of None \<Rightarrow> [] | Some ss \<Rightarrow> ss)
             @ [runSummary now rep]))"
  unfolding updateHistory_def Let_def by (simp only: trim_lastN) simp

lemma int_length_lastN: "0 < n \<Longrightarrow> int (length (lastN (nat n) xs)) \<le> n"
  using length_lastN [of "nat n" xs] by linarith

lemma recordRun_tests_bounded:
  assumes cap: "0 < maxHistoryRuns opts"
    and inv: "\<forall>tid es. tests h tid = Some es \<longrightarrow> int (length es) \<le> maxHistoryRuns opts"
  shows "\<forall>tid es. tests (recordRun opts h run) tid = Some es
           \<longrightarrow> int (length es) \<le> maxHistoryRuns opts"
proof (intro allI impI)
  fix tid es
  let ?rep = "foldl onTestEnd
          \<lparr> options = opts, results = [], history = h, currentRun = run_meta run,
            startTime = run_start run, outputDir = [] \<rparr> (run_events run)"
  assume a: "tests (recordRun opts h run) tid = Some es"
  have o: "options ?rep = opts" and hh: "history ?rep = h"
    by (simp_all add: foldl_onTestEnd_keeps)
  have "tests (history (updateHistory (run_endIso run) (run_endNow run) ?rep)) tid = Some es"
    using a by (simp add: recordRun_def)
  then show "int (length es) \<le> maxHistoryRuns opts"
    using cap inv o hh updateHistory_tests [of ?rep "run_endIso run" "run_endNow run" tid]
    by (auto simp add: int_length_lastN split: if_splits)
qed

lemma recordRun_summaries_bounded:
  assumes cap: "0 < maxHistoryRuns opts"
  shows "\<exists>ss. summaries (recordRun opts h run) = Some ss \<and> int (length ss) \<le> maxHistoryRuns opts"
proof -
  let ?rep = "foldl onTestEnd
          \<lparr> options = opts, results = [], history = h, currentRun = run_meta run,
            startTime = run_start run, outputDir = [] \<rparr> (run_events run)"
  have o: "options ?rep = opts" by (simp add: foldl_onTestEnd_keeps)
  show ?thesis
    using cap o updateHistory_summaries [of ?rep "run_endIso run" "run_endNow run"]
    by (simp add: recordRun_def int_length_lastN)
qed

lemma recordRuns_tests_bounded:
  assumes cap: "0 < maxHistoryRuns opts"
  shows "(\<forall>tid es. tests h tid = Some es \<longrightarrow> int (length es) \<le> maxHistoryRuns opts) \<Longrightarrow>
         (\<forall>tid es. tests (recordRuns opts h rs) tid = Some es
            \<longrightarrow> int (length es) \<le> maxHistoryRuns opts)"
proof (induction rs arbitrary: h)
  case Nil
  then show ?case by (simp add: recordRuns_def)
next
  case (Cons r rs)
  have "\<forall>tid es. tests (recordRun opts h r) tid = Some es
           \<longrightarrow> int (length es) \<le> maxHistoryRuns opts"
    using recordRun_tests_bounded [OF cap Cons.prems] .
  from Cons.IH [OF this] show ?case by (simp add: recordRuns_def)
qed

lemma recordRuns_summaries_bounded:
  assumes cap: "0 < maxHistoryRuns opts" and ne: "rs \<noteq> []"
  shows "\<exists>ss. summaries (recordRuns opts h rs) = Some ss \<and> int (length ss) \<le> maxHistoryRuns opts"
proof -
  from ne obtain rs' r where rs: "rs = rs' @ [r]" by (metis rev_exhaust)
  show ?thesis
    using recordRun_summaries_bounded [OF cap, of "foldl (recordRun opts) h rs'" r]
    by (simp add: rs recordRuns_def)
qed


text \<open>
  Claim C1 says that after recording, every per-test sequence of every history document is
  within the cap. \<open>updateHistory\<close> trims only the sequences of the tests of the current
  run: with the cap 2, a stored test with three entries that is not part of the run keeps
  its three entries.
\<close>

theorem updateHistory_untouched_counterexample:
  "maxHistoryRuns (options (cappedReporter 2 [entry True 10 False, entry True 11 False, entry True 12 False]
      [sampleResult ''b.spec.ts::t2'' Passed])) = 2 \<and>
   tests (history (updateHistory ''2024-12-13T10:00:00.000Z'' 100
      (cappedReporter 2 [entry True 10 False, entry True 11 False, entry True 12 False]
         [sampleResult ''b.spec.ts::t2'' Passed]))) ''a.spec.ts::t1''
     = Some [entry True 10 False, entry True 11 False, entry True 12 False] \<and>
   \<not> int (length [entry True 10 False, entry True 11 False, entry True 12 False]) \<le> 2"
  by (simp add: cappedReporter_def constructor_def updateHistory_def recordResult_def
        sampleResult_def Let_def)

text \<open>A cap of 0 trims nothing, because \<open>slice(-0)\<close> is \<open>slice(0)\<close>: two stored entries and
  the new one stay three.\<close>

lemma updateHistory_cap_zero:
  "map_option length (tests (history (updateHistory ''2024-12-13T10:00:00.000Z'' 100
      (cappedReporter 0 [entry True 10 False, entry True 11 False]
         [sampleResult ''a.spec.ts::t1'' Passed]))) ''a.spec.ts::t1'') = Some 3"
  by (simp add: cappedReporter_def constructor_def updateHistory_def recordResult_def
        sampleResult_def Let_def js_slice_def)

text \<open>
  Claim C1 as amended, for a cap of at least 1. Recording a run appends the new entries of
  every test of the run to the old sequence of that test and keeps the last \<open>cap\<close> elements
  of the result, so that sequence has at most \<open>cap\<close> elements; the new summary is appended
  to the old summaries and the last \<open>cap\<close> elements are kept. Over
  any sequence of runs with the same options, if every per-test sequence of the first
  document is within the cap then so is every per-test sequence of the last, and after at
  least one run the summaries are within the cap.
\<close>

theorem updateHistory_bounded:
  fixes rep timestamp now h rs
  defines "cap \<equiv> maxHistoryRuns (options rep)"
  defines "h' \<equiv> history (updateHistory timestamp now rep)"
  assumes "1 \<le> cap"
  shows "(\<forall>tid \<in> testId ` set (results rep).
            tests h' tid =
              Some (lastN (nat cap)
                     ((case tests (history rep) tid of None \<Rightarrow> [] | Some es \<Rightarrow> es)
                      @ map (newEntry timestamp) (filter (\<lambda>r. testId r = tid) (results rep)))) \<and>
            (\<exists>es. tests h' tid = Some es \<and> int (length es) \<le> cap)) \<and>
         summaries h' =
           Some (lastN (nat cap)
                  ((case summaries (history rep) of None \<Rightarrow> [] | Some ss \<Rightarrow> ss)
                   @ [runSummary now rep])) \<and>
         (\<exists>ss. summaries h' = Some ss \<and> int (length ss) \<le> cap) \<and>
         ((\<forall>tid es. tests h tid = Some es \<longrightarrow> int (length es) \<le> cap) \<longrightarrow>
            (\<forall>tid es. tests (recordRuns (options rep) h rs) tid = Some es
               \<longrightarrow> int (length es) \<le> cap)) \<and>
         (rs \<noteq> [] \<longrightarrow>
            (\<exists>ss. summaries (recordRuns (options rep) h rs) = Some ss \<and> int (length ss) \<le> cap))"
proof -
  have pos: "0 < maxHistoryRuns (options rep)" using assms(3) by (simp add: cap_def)
  have t: "\<forall>tid \<in> testId ` set (results rep).
            tests h' tid =
              Some (lastN (nat cap)
                     ((case tests (history rep) tid of None \<Rightarrow> [] | Some es \<Rightarrow> es)
                      @ map (newEntry timestamp) (filter (\<lambda>r. testId r = tid) (results rep)))) \<and>
            (\<exists>es. tests h' tid = Some es \<and> int (length es) \<le> cap)"
    using pos unfolding h'_def cap_def
    by (simp add: updateHistory_tests int_length_lastN)
  have s: "summaries h' =
           Some (lastN (nat cap)
                  ((case summaries (history rep) of None \<Rightarrow> [] | Some ss \<Rightarrow> ss)
                   @ [runSummary now rep]))"
    using pos unfolding h'_def cap_def by (rule updateHistory_summaries)
  have sb: "\<exists>ss. summaries h' = Some ss \<and> int (length ss) \<le> cap"
    using s pos by (simp add: int_length_lastN cap_def)
  have inv: "(\<forall>tid es. tests h tid = Some es \<longrightarrow> int (length es) \<le> cap) \<longrightarrow>
            (\<forall>tid es. tests (recordRuns (options rep) h rs) tid = Some es
               \<longrightarrow> int (length es) \<le> cap)"
    unfolding cap_def using recordRuns_tests_bounded [OF pos] by blast
  have sums: "rs \<noteq> [] \<longrightarrow>
            (\<exists>ss. summaries (recordRuns (options rep) h rs) = Some ss \<and> int (length ss) \<le> cap)"
    unfolding cap_def using recordRuns_summaries_bounded [OF pos] by blast
  from t s sb inv sums show ?thesis by blast
qed

theorem updateHistory_bounded_witness:
  "1 \<le> maxHistoryRuns (options (cappedReporter 2 [entry True 10 False, entry True 11 False]
      [sampleResult ''a.spec.ts::t1'' Failed])) \<and>
   tests (history (updateHistory ''2024-12-13T10:00:00.000Z'' 100
      (cappedReporter 2 [entry True 10 False, entry True 11 False]
         [sampleResult ''a.spec.ts::t1'' Failed]))) ''a.spec.ts::t1''
     = Some [entry True 11 False,
             newEntry ''2024-12-13T10:00:00.000Z'' (sampleResult ''a.spec.ts::t1'' Failed)] \<and>
   (\<exists>es. tests (recordRuns
      (options (cappedReporter 2 [entry True 10 False, entry True 11 False]
         [sampleResult ''a.spec.ts::t1'' Failed]))
      (history (sampleReporter [entry True 10 False]))
      [sampleRun, sampleRun, sampleRun]) ''a.spec.ts::t1'' = Some es \<and> int (length es) \<le> 2) \<and>
   (\<exists>ss. summaries (recordRuns
      (options (cappedReporter 2 [entry True 10 False, entry True 11 False]
         [sampleResult ''a.spec.ts::t1'' Failed]))
      (history (sampleReporter [entry True 10 False]))
      [sampleRun, sampleRun, sampleRun]) = Some ss \<and> int (length ss) \<le> 2)"
proof -
  let ?rep = "cappedReporter 2 [entry True 10 False, entry True 11 False]
      [sampleResult ''a.spec.ts::t1'' Failed]"
  let ?h = "history (sampleReporter [entry True 10 False])"
  let ?rs = "[sampleRun, sampleRun, sampleRun]"
  have cap: "maxHistoryRuns (options ?rep) = 2"
    by (simp add: cappedReporter_def constructor_def)
  then have prem: "1 \<le> maxHistoryRuns (options ?rep)" by simp
  note inst = updateHistory_bounded [OF prem, of "''2024-12-13T10:00:00.000Z''" 100 ?h ?rs]
  have touched: "''a.spec.ts::t1'' \<in> testId ` set (results ?rep)"
    by (simp add: cappedReporter_def sampleResult_def)
  have old: "tests (history ?rep) ''a.spec.ts::t1''
               = Some [entry True 10 False, entry True 11 False]"
    by (simp add: cappedReporter_def)
  have new: "filter (\<lambda>r. testId r = ''a.spec.ts::t1'') (results ?rep)
               = [sampleResult ''a.spec.ts::t1'' Failed]"
    by (simp add: cappedReporter_def sampleResult_def)
  have one: "tests (history (updateHistory ''2024-12-13T10:00:00.000Z'' 100 ?rep))
               ''a.spec.ts::t1''
             = Some [entry True 11 False,
                  newEntry ''2024-12-13T10:00:00.000Z'' (sampleResult ''a.spec.ts::t1'' Failed)]"
    using bspec [OF inst [THEN conjunct1] touched, THEN conjunct1]
    by (simp add: cap old new lastN_def)
  have inv: "\<forall>tid es. tests ?h tid = Some es
               \<longrightarrow> int (length es) \<le> maxHistoryRuns (options ?rep)"
    unfolding cap by (auto simp add: sample_defs split: if_splits)
  have ev: "\<exists>es. tests (recordRuns (options ?rep) ?h ?rs) ''a.spec.ts::t1'' = Some es"
    by (simp add: recordRuns_def recordRun_def updateHistory_def recordResult_def onTestEnd_def
          sampleRun_def sample_defs cappedReporter_def sampleResult_def newEntry_def
          getTestId_def notSkipped_def js_slice_def Let_def)
  have many: "\<exists>es. tests (recordRuns (options ?rep) ?h ?rs) ''a.spec.ts::t1'' = Some es
               \<and> int (length es) \<le> 2"
    using ev mp [OF inst [THEN conjunct2, THEN conjunct2, THEN conjunct2, THEN conjunct1] inv]
    unfolding cap by blast
  have ne: "?rs \<noteq> []" by simp
  have sums: "\<exists>ss. summaries (recordRuns (options ?rep) ?h ?rs) = Some ss
               \<and> int (length ss) \<le> 2"
    using mp [OF inst [THEN conjunct2, THEN conjunct2, THEN conjunct2, THEN conjunct2] ne]
    unfolding cap .
  from prem one many sums show ?thesis by blast
qed

section \<open>Merge: idempotence and commutativity\<close>

































end
